theory Spec2Isabelle
  imports Main
begin

section \<open>Python values\<close>

text \<open>
  The handler of \<^verbatim>\<open>main.py\<close> is typed
  \<^verbatim>\<open>get_current_time(context: FSContext, data: Dict[str, Any]) -> Dict[str, Any]\<close>.
  The values of \<^verbatim>\<open>Any\<close> are modelled by the JSON value types, by
  \<^verbatim>\<open>bytes\<close>, \<^verbatim>\<open>bytearray\<close> and the members of an \<^verbatim>\<open>Enum\<close>, which
  the string validator of pydantic also looks at, and by \<open>PyObject\<close> for an instance
  of any other class (\<^verbatim>\<open>Decimal\<close>, \<^verbatim>\<open>memoryview\<close>, a class of the caller's),
  given by the name of its class. Text is kept in its UTF-8 encoding: a
  \<^verbatim>\<open>str\<close> is the \<open>string\<close> of its bytes, so that joining texts is joining
  strings and decoding well-formed bytes leaves them as they are. A float is carried
  as mantissa and exponent; no function below inspects it. An \<^verbatim>\<open>Enum\<close> member
  is carried as the text \<^verbatim>\<open>str()\<close> gives for its value (\<open>one\<close> for the value
  \<^verbatim>\<open>"one"\<close>, \<open>1\<close> for the value \<^verbatim>\<open>1\<close>), which is all the validator reads
  of it; a member of an enumeration that derives from \<^verbatim>\<open>str\<close> is a
  \<^verbatim>\<open>str\<close> and is a \<open>PyStr\<close>.
\<close>

datatype pyval =
    PyNone
  | PyBool bool
  | PyInt int
  | PyFloat int int
  | PyStr string
  | PyBytes string
  | PyByteArray string
  | PyEnum string
  | PyList "pyval list"
  | PyDict "(string \<times> pyval) list"
  | PyObject string

type_synonym pydict = "string \<rightharpoonup> pyval"

datatype error = ValidationError | TypeError | ValueError

section \<open>Payload validation: \<^verbatim>\<open>User.model_validate\<close>\<close>

text \<open>
  \<^verbatim>\<open>class User(BaseModel): name: str\<close> has one required field and the default
  configuration of pydantic: validation is lax, numbers are not coerced to strings and
  extra keys are ignored. The lax string validator takes a \<^verbatim>\<open>str\<close> as it is,
  decodes \<^verbatim>\<open>bytes\<close> and \<^verbatim>\<open>bytearray\<close> as UTF-8 (failing when they are not
  well-formed), replaces a member of an \<^verbatim>\<open>Enum\<close> by \<^verbatim>\<open>str()\<close> of its
  value, and refuses every other value. Well-formedness is that of the Unicode
  standard: no overlong form, no surrogate, nothing above U+10FFFF.
\<close>

definition byte :: "char \<Rightarrow> nat" where
  "byte c = of_char c"

text \<open>
  For a lead byte: the number of continuation bytes that follow it and the range
  allowed for the first of them.
\<close>

definition lead :: "char \<Rightarrow> (nat \<times> nat \<times> nat) option" where
  "lead b =
    (let n = byte b in
     if 0xC2 \<le> n \<and> n \<le> 0xDF then Some (1, 0x80, 0xBF)
     else if n = 0xE0 then Some (2, 0xA0, 0xBF)
     else if n = 0xED then Some (2, 0x80, 0x9F)
     else if 0xE1 \<le> n \<and> n \<le> 0xEF then Some (2, 0x80, 0xBF)
     else if n = 0xF0 then Some (3, 0x90, 0xBF)
     else if 0xF1 \<le> n \<and> n \<le> 0xF3 then Some (3, 0x80, 0xBF)
     else if n = 0xF4 then Some (3, 0x80, 0x8F)
     else None)"

definition continuation :: "char \<Rightarrow> bool" where
  "continuation c = (0x80 \<le> byte c \<and> byte c \<le> 0xBF)"

fun utf8_valid :: "string \<Rightarrow> bool" where
  "utf8_valid [] = True"
| "utf8_valid (b # bs) =
    (if byte b < 0x80 then utf8_valid bs
     else (case lead b of
        None \<Rightarrow> False
      | Some (k, lo, hi) \<Rightarrow>
          k \<le> length bs \<and> lo \<le> byte (hd bs) \<and> byte (hd bs) \<le> hi
          \<and> list_all continuation (take (k - 1) (tl bs))
          \<and> utf8_valid (drop k bs)))"

definition validate_str :: "pyval \<Rightarrow> error + string" where
  "validate_str v =
    (case v of
       PyStr s \<Rightarrow> Inr s
     | PyBytes b \<Rightarrow> if utf8_valid b then Inr b else Inl ValidationError
     | PyByteArray b \<Rightarrow> if utf8_valid b then Inr b else Inl ValidationError
     | PyEnum t \<Rightarrow> Inr t
     | _ \<Rightarrow> Inl ValidationError)"

record user =
  name :: string

definition model_validate :: "pydict \<Rightarrow> error + user" where
  "model_validate data =
    (case data ''name'' of
       None \<Rightarrow> Inl ValidationError
     | Some v \<Rightarrow>
        (case validate_str v of
           Inl e \<Rightarrow> Inl e
         | Inr s \<Rightarrow> Inr \<lparr>name = s\<rparr>))"

section \<open>Rendering the clock: \<^verbatim>\<open>datetime.strftime\<close>\<close>

record datetime =
  year :: nat
  month :: nat
  day :: nat
  hour :: nat
  minute :: nat
  second :: nat
  microsecond :: nat

text \<open>
  \<^verbatim>\<open>strftime\<close> raises \<^verbatim>\<open>TypeError\<close> unless its argument is a \<^verbatim>\<open>str\<close>
  and otherwise hands the pattern to the C library. What the C library does is fixed
  for patterns made of printable ASCII text and the directives
  \<^verbatim>\<open>%Y %m %d %H %M %S %%\<close> (with a four-digit year); \<open>simple_render\<close> renders
  those. For every other pattern the answer depends on the platform and the locale
  (glibc copies an unknown directive, the Windows runtime refuses it with
  \<^verbatim>\<open>ValueError\<close>), so it is a parameter: a \<open>platform\<close> gives the rendering, or
  \<open>None\<close> when it refuses the pattern.
\<close>

type_synonym platform = "datetime \<Rightarrow> string \<Rightarrow> string option"

definition digit :: "nat \<Rightarrow> char" where
  "digit n = ''0123456789'' ! (n mod 10)"

definition pad2 :: "nat \<Rightarrow> string" where
  "pad2 n = [digit (n div 10), digit n]"

definition pad4 :: "nat \<Rightarrow> string" where
  "pad4 n = [digit (n div 1000), digit (n div 100), digit (n div 10), digit n]"

definition directive :: "datetime \<Rightarrow> char \<Rightarrow> string option" where
  "directive dt c =
    (if c = CHR ''Y'' then
       (if 1000 \<le> year dt \<and> year dt \<le> 9999 then Some (pad4 (year dt)) else None)
     else if c = CHR ''m'' then Some (pad2 (month dt))
     else if c = CHR ''d'' then Some (pad2 (day dt))
     else if c = CHR ''H'' then Some (pad2 (hour dt))
     else if c = CHR ''M'' then Some (pad2 (minute dt))
     else if c = CHR ''S'' then Some (pad2 (second dt))
     else if c = CHR ''%'' then Some ''%''
     else None)"

definition plain :: "char \<Rightarrow> bool" where
  "plain c = (0x20 \<le> byte c \<and> byte c \<le> 0x7E \<and> c \<noteq> CHR ''%'')"

fun simple_render :: "datetime \<Rightarrow> string \<Rightarrow> string option" where
  "simple_render dt [] = Some []"
| "simple_render dt [c] = (if plain c then Some [c] else None)"
| "simple_render dt (c # d # cs) =
    (if c = CHR ''%'' then
       (case directive dt d of
          None \<Rightarrow> None
        | Some s \<Rightarrow> map_option ((@) s) (simple_render dt cs))
     else if plain c then map_option ((#) c) (simple_render dt (d # cs))
     else None)"

definition strftime :: "platform \<Rightarrow> datetime \<Rightarrow> pyval \<Rightarrow> error + string" where
  "strftime P dt fmt =
    (case fmt of
       PyStr f \<Rightarrow>
        (case simple_render dt f of
           Some s \<Rightarrow> Inr s
         | None \<Rightarrow> (case P dt f of Some s \<Rightarrow> Inr s | None \<Rightarrow> Inl ValueError))
     | _ \<Rightarrow> Inl TypeError)"

text \<open>A platform that refuses every pattern outside the fixed fragment.\<close>

definition refusing :: platform where
  "refusing dt f = None"

text \<open>
  What CPython on glibc returns for a directive the C library has no conversion for,
  and for a \<^verbatim>\<open>%\<close> that ends the pattern: both are copied into the result.
  \<open>glibc_copies\<close> renders the patterns made of printable ASCII text, the fixed
  directives, the directive \<^verbatim>\<open>%Q\<close> (glibc has no conversion \<open>Q\<close>) and a
  closing \<^verbatim>\<open>%\<close>. It describes glibc on these patterns only: the directives that
  depend on the locale, flags and widths are not rendered here, and nothing below asks
  it about them.
\<close>

fun glibc_copies :: "datetime \<Rightarrow> string \<Rightarrow> string option" where
  "glibc_copies dt [] = Some []"
| "glibc_copies dt [c] = (if plain c \<or> c = CHR ''%'' then Some [c] else None)"
| "glibc_copies dt (c # d # cs) =
    (if c = CHR ''%'' then
       (if d = CHR ''Q'' then map_option ((@) ''%Q'') (glibc_copies dt cs)
        else (case directive dt d of
                None \<Rightarrow> None
              | Some s \<Rightarrow> map_option ((@) s) (glibc_copies dt cs)))
     else if plain c then map_option ((#) c) (glibc_copies dt (d # cs))
     else None)"

section \<open>The handler: \<^verbatim>\<open>get_current_time\<close>\<close>

text \<open>
  The handler reads the system clock and asks the context for a configuration value.
  Both are calls into the world outside the function, so the model passes a world
  along: the value the clock shows, the dictionary behind the context, the caller's
  payload dictionary (the handler receives a reference to it), and the list of the
  calls made so far, oldest first.

  \<^verbatim>\<open>get_config\<close> follows the context of \<^verbatim>\<open>test_main.py\<close>, whose
  \<^verbatim>\<open>get_config\<close> is \<^verbatim>\<open>self._config.get(key)\<close>: a missing key gives
  \<^verbatim>\<open>None\<close>.
\<close>

datatype event = ClockRead | ConfigRead string

record world =
  clock :: datetime
  config :: pydict
  payload :: pydict
  events :: "event list"

definition now :: "world \<Rightarrow> datetime \<times> world" where
  "now w = (clock w, w\<lparr>events := events w @ [ClockRead]\<rparr>)"

definition get_config :: "string \<Rightarrow> world \<Rightarrow> pyval \<times> world" where
  "get_config key w =
    ((case config w key of None \<Rightarrow> PyNone | Some v \<Rightarrow> v),
     w\<lparr>events := events w @ [ConfigRead key]\<rparr>)"

definition greeting :: "string \<Rightarrow> string \<Rightarrow> string" where
  "greeting n t = ''Hi, '' @ n @ '', the current time is '' @ t @ ''.''"

definition get_current_time :: "platform \<Rightarrow> world \<Rightarrow> (error + pydict) \<times> world" where
  "get_current_time P w =
    (case model_validate (payload w) of
       Inl e \<Rightarrow> (Inl e, w)
     | Inr user \<Rightarrow>
        (let (t, w1) = now w;
             (time_format, w2) = get_config ''format'' w1
         in (case strftime P t time_format of
               Inl e \<Rightarrow> (Inl e, w2)
             | Inr s \<Rightarrow> (Inr [''result'' \<mapsto> PyStr (greeting (name user) s)], w2))))"

text \<open>The clock of the tests: \<^verbatim>\<open>datetime(2025, 8, 30, 12, 30, 45)\<close>.\<close>

definition mock_now :: datetime where
  "mock_now = \<lparr>year = 2025, month = 8, day = 30, hour = 12, minute = 30, second = 45,
     microsecond = 0\<rparr>"

text \<open>
  The set-up of \<^verbatim>\<open>test_main.py\<close>: the clock patched to \<open>mock_now\<close>, a context
  over the given configuration, and no call made yet.
\<close>

definition test_world :: "pydict \<Rightarrow> pydict \<Rightarrow> world" where
  "test_world cfg data = \<lparr>clock = mock_now, config = cfg, payload = data, events = []\<rparr>"

text \<open>
  The specification calls every error of the rendering step a FormatError. In Python
  these are the two exceptions \<^verbatim>\<open>strftime\<close> raises.
\<close>

definition FormatError :: "error \<Rightarrow> bool" where
  "FormatError e = (e = TypeError \<or> e = ValueError)"

section \<open>The bootstrap wrapper: \<^verbatim>\<open>main\<close>\<close>

text \<open>
  \<^verbatim>\<open>main\<close> is
  \<^verbatim>\<open>
    function = FSFunction(process_funcs={"getCurrentTime": get_current_time})
    try:
        print("Starting agent function service...")
        await function.start()
    except Exception as e:
        print(f"\nAn error occurred: {e}")
    finally:
        await function.close()
  \<close>
  The framework is not part of the repository, so what it does is a parameter: the
  call of the constructor raises (\<open>Inl\<close>) or gives the object (\<open>Inr\<close>), and each
  of the object's two coroutines returns or raises when awaited. The constructor is
  called before the \<^verbatim>\<open>try\<close>: what it raises leaves \<^verbatim>\<open>main\<close> at once.
  Python separates the exceptions that derive from \<^verbatim>\<open>Exception\<close> from those
  that derive from \<^verbatim>\<open>BaseException\<close> only; \<open>Exception m\<close> is an exception of
  the first kind whose text is \<open>m\<close>, the other two are of the second kind. The
  wrapper's result is what it printed and awaited, in order, and how it ended.
\<close>

datatype exn = Exception string | KeyboardInterrupt | SystemExit

datatype outcome = Returns | Raises exn

datatype io = Print string | AwaitStart | AwaitClose

record fs_function =
  start :: outcome
  close :: outcome

definition main :: "exn + fs_function \<Rightarrow> io list \<times> outcome" where
  "main FSFunction =
    (case FSFunction of
       Inl x \<Rightarrow> ([], Raises x)
     | Inr f \<Rightarrow>
        (let tried = [Print ''Starting agent function service...'', AwaitStart];
             (handled, pending) =
               (case start f of
                  Returns \<Rightarrow> ([], Returns)
                | Raises (Exception e) \<Rightarrow>
                    ([Print (CHR 0x0A # ''An error occurred: '' @ e)], Returns)
                | Raises b \<Rightarrow> ([], Raises b))
         in (tried @ handled @ [AwaitClose],
             case close f of Returns \<Rightarrow> pending | Raises c \<Rightarrow> Raises c)))"

text \<open>
  The script around it: \<^verbatim>\<open>asyncio.run(main())\<close> hands on what \<^verbatim>\<open>main\<close>
  raises, and only \<^verbatim>\<open>KeyboardInterrupt\<close> is caught.
\<close>

definition script :: "exn + fs_function \<Rightarrow> io list \<times> outcome" where
  "script FSFunction =
    (case main FSFunction of
       (out, Raises KeyboardInterrupt) \<Rightarrow>
         (out @ [Print (CHR 0x0A # ''Service stopped'')], Returns)
     | r \<Rightarrow> r)"

section \<open>Evaluation lemmas\<close>

lemma pad2_digits:
  "pad2 8 = ''08''" "pad2 30 = ''30''" "pad2 12 = ''12''" "pad2 45 = ''45''"
  by (simp_all add: pad2_def digit_def)

lemma pad4_2025: "pad4 2025 = ''2025''"
  by (simp add: pad4_def digit_def)

lemma render_full: "simple_render mock_now ''%Y-%m-%d %H:%M:%S'' = Some ''2025-08-30 12:30:45''"
  by (simp add: directive_def plain_def byte_def mock_now_def pad2_digits pad4_2025)

lemma render_short: "simple_render mock_now ''%H:%M'' = Some ''12:30''"
  by (simp add: directive_def plain_def byte_def mock_now_def pad2_digits)

lemma validate_name:
  "data ''name'' = Some (PyStr n) \<Longrightarrow> model_validate data = Inr \<lparr>name = n\<rparr>"
  by (simp add: model_validate_def validate_str_def)

lemma validation_fails_only_with_ValidationError:
  "model_validate data = Inl e \<Longrightarrow> e = ValidationError"
  by (auto simp: model_validate_def validate_str_def
      split: option.splits pyval.splits if_splits sum.splits)

lemma handler_on_valid:
  "model_validate (payload w) = Inr u \<Longrightarrow>
   get_current_time P w =
     (case strftime P (clock w) (case config w ''format'' of None \<Rightarrow> PyNone | Some v \<Rightarrow> v) of
        Inl e \<Rightarrow> Inl e
      | Inr s \<Rightarrow> Inr [''result'' \<mapsto> PyStr (greeting (name u) s)],
      w\<lparr>events := events w @ [ClockRead, ConfigRead ''format'']\<rparr>)"
  by (simp add: get_current_time_def now_def get_config_def split: sum.splits)

lemma handler_on_invalid:
  "model_validate (payload w) = Inl e \<Longrightarrow> get_current_time P w = (Inl e, w)"
  by (simp add: get_current_time_def)

lemma strftime_fixed:
  "simple_render dt f = Some s \<Longrightarrow> strftime P dt (PyStr f) = Inr s"
  by (simp add: strftime_def)

lemma strftime_None: "strftime P dt PyNone = Inl TypeError"
  by (simp add: strftime_def)

lemma strftime_errors: "strftime P dt v = Inl e \<Longrightarrow> FormatError e"
  by (auto simp: strftime_def FormatError_def split: pyval.splits option.splits)

lemma test_world_fields:
  "clock (test_world cfg data) = mock_now"
  "config (test_world cfg data) = cfg"
  "payload (test_world cfg data) = data"
  "events (test_world cfg data) = []"
  by (simp_all add: test_world_def)

section \<open>The greeting\<close>

text \<open>
  Claim C1. When the payload's \<open>name\<close> is a string \<open>n\<close>, the configuration holds a
  string pattern under \<open>format\<close> and \<^verbatim>\<open>strftime\<close> renders the clock with it as
  \<open>t\<close>, the handler returns the dictionary whose only key is \<open>result\<close>, with the
  value \<open>Hi, n, the current time is t.\<close>
\<close>

theorem greeting_for_valid_input:
  assumes "payload w ''name'' = Some (PyStr n)"
    and "config w ''format'' = Some (PyStr f)"
    and "strftime P (clock w) (PyStr f) = Inr t"
  shows "fst (get_current_time P w) =
           Inr [''result'' \<mapsto> PyStr (''Hi, '' @ n @ '', the current time is '' @ t @ ''.'')]
         \<and> (\<exists>out. fst (get_current_time P w) = Inr out \<and> dom out = {''result''})"
proof -
  have "model_validate (payload w) = Inr \<lparr>name = n\<rparr>"
    using assms(1) by (rule validate_name)
  then show ?thesis
    using assms(2,3) by (simp add: handler_on_valid greeting_def)
qed

theorem greeting_for_valid_input_witness:
  "fst (get_current_time refusing
          (test_world [''format'' \<mapsto> PyStr ''%d.%m.%Y''] [''name'' \<mapsto> PyStr ''Bob''])) =
     Inr [''result'' \<mapsto> PyStr ''Hi, Bob, the current time is 30.08.2025.'']"
proof -
  have r: "simple_render mock_now ''%d.%m.%Y'' = Some ''30.08.2025''"
    by (simp add: directive_def plain_def byte_def mock_now_def pad2_digits pad4_2025)
  show ?thesis
    using greeting_for_valid_input [of
        "test_world [''format'' \<mapsto> PyStr ''%d.%m.%Y''] [''name'' \<mapsto> PyStr ''Bob'']"
        "''Bob''" "''%d.%m.%Y''" refusing "''30.08.2025''"]
    by (simp add: test_world_fields strftime_fixed [OF r])
qed

text \<open>
  Claim C2. With the clock at 2025-08-30 12:30:45 and the payload name Alice, the
  pattern \<^verbatim>\<open>%Y-%m-%d %H:%M:%S\<close> gives
  \<open>Hi, Alice, the current time is 2025-08-30 12:30:45.\<close> and the pattern
  \<^verbatim>\<open>%H:%M\<close> gives \<open>Hi, Alice, the current time is 12:30.\<close>, on every platform.
\<close>

theorem greeting_examples:
  "fst (get_current_time P
          (test_world [''format'' \<mapsto> PyStr ''%Y-%m-%d %H:%M:%S''] [''name'' \<mapsto> PyStr ''Alice''])) =
     Inr [''result'' \<mapsto> PyStr ''Hi, Alice, the current time is 2025-08-30 12:30:45.'']
   \<and>
   fst (get_current_time P
          (test_world [''format'' \<mapsto> PyStr ''%H:%M''] [''name'' \<mapsto> PyStr ''Alice''])) =
     Inr [''result'' \<mapsto> PyStr ''Hi, Alice, the current time is 12:30.'']"
  by (simp add: handler_on_valid [OF validate_name] test_world_fields
      strftime_fixed [OF render_full] strftime_fixed [OF render_short] greeting_def)

section \<open>Validation failures\<close>

text \<open>
  A name given as bytes is decoded and greeted: the lax string validator does not
  refuse every value that is not a \<^verbatim>\<open>str\<close>.
\<close>

theorem bytes_name_is_greeted:
  "fst (get_current_time refusing
          (test_world [''format'' \<mapsto> PyStr ''%H:%M''] [''name'' \<mapsto> PyBytes ''Alice''])) =
     Inr [''result'' \<mapsto> PyStr ''Hi, Alice, the current time is 12:30.'']"
proof -
  have "utf8_valid ''Alice''"
    by (simp add: byte_def)
  then have "model_validate [''name'' \<mapsto> PyBytes ''Alice''] = Inr \<lparr>name = ''Alice''\<rparr>"
    by (simp add: model_validate_def validate_str_def)
  then show ?thesis
    by (simp add: handler_on_valid test_world_fields strftime_fixed [OF render_short]
        greeting_def)
qed

text \<open>So is a member of an \<^verbatim>\<open>Enum\<close>, under the text of its value.\<close>

lemma enum_name_is_greeted:
  "fst (get_current_time refusing
          (test_world [''format'' \<mapsto> PyStr ''%H:%M''] [''name'' \<mapsto> PyEnum ''one''])) =
     Inr [''result'' \<mapsto> PyStr ''Hi, one, the current time is 12:30.'']"
proof -
  have "model_validate [''name'' \<mapsto> PyEnum ''one''] = Inr \<lparr>name = ''one''\<rparr>"
    by (simp add: model_validate_def validate_str_def)
  then show ?thesis
    by (simp add: handler_on_valid test_world_fields strftime_fixed [OF render_short]
        greeting_def)
qed

text \<open>
  These are the only values the validator accepts: with any of them under \<open>name\<close>
  the handler does not fail with ValidationError.
\<close>

lemma validation_passes:
  assumes "payload w ''name'' = Some v"
    and "(\<exists>s. v = PyStr s) \<or> (\<exists>t. v = PyEnum t)
         \<or> (\<exists>b. utf8_valid b \<and> (v = PyBytes b \<or> v = PyByteArray b))"
  shows "fst (get_current_time P w) \<noteq> Inl ValidationError"
proof -
  obtain u where u: "model_validate (payload w) = Inr u"
    using assms by (auto simp: model_validate_def validate_str_def)
  show ?thesis
  proof (cases "strftime P (clock w)
      (case config w ''format'' of None \<Rightarrow> PyNone | Some x \<Rightarrow> x)")
    case (Inl e)
    then have "FormatError e"
      by (rule strftime_errors)
    then show ?thesis
      using Inl by (auto simp: handler_on_valid [OF u] FormatError_def)
  next
    case (Inr s)
    then show ?thesis
      by (simp add: handler_on_valid [OF u])
  qed
qed

text \<open>
  Claim C3, amended. When the payload has no \<open>name\<close>, or its \<open>name\<close> is not a
  string, nor a member of an \<^verbatim>\<open>Enum\<close>, nor a bytes or bytearray value holding
  well-formed UTF-8, the handler fails with ValidationError, returns no payload and
  leaves the world as it found it.
\<close>

theorem validation_error_without_name:
  assumes "payload w ''name'' = None
           \<or> (\<exists>v. payload w ''name'' = Some v \<and> (\<forall>s. v \<noteq> PyStr s)
                  \<and> (\<forall>t. v \<noteq> PyEnum t)
                  \<and> (\<forall>b. utf8_valid b \<longrightarrow> v \<noteq> PyBytes b \<and> v \<noteq> PyByteArray b))"
  shows "get_current_time P w = (Inl ValidationError, w)"
proof -
  have "model_validate (payload w) = Inl ValidationError"
    using assms
    by (auto simp: model_validate_def validate_str_def split: option.splits pyval.splits)
  then show ?thesis
    by (rule handler_on_invalid)
qed

theorem validation_error_without_name_witness:
  "get_current_time refusing
     (test_world [''format'' \<mapsto> PyStr ''%H:%M''] [''test'' \<mapsto> PyStr ''data'']) =
     (Inl ValidationError,
      test_world [''format'' \<mapsto> PyStr ''%H:%M''] [''test'' \<mapsto> PyStr ''data''])
   \<and>
   get_current_time refusing
     (test_world [''format'' \<mapsto> PyStr ''%H:%M''] [''name'' \<mapsto> PyInt 42]) =
     (Inl ValidationError,
      test_world [''format'' \<mapsto> PyStr ''%H:%M''] [''name'' \<mapsto> PyInt 42])
   \<and>
   get_current_time refusing
     (test_world [''format'' \<mapsto> PyStr ''%H:%M''] [''name'' \<mapsto> PyBytes [CHR 0xFF]]) =
     (Inl ValidationError,
      test_world [''format'' \<mapsto> PyStr ''%H:%M''] [''name'' \<mapsto> PyBytes [CHR 0xFF]])
   \<and>
   get_current_time refusing
     (test_world [''format'' \<mapsto> PyStr ''%H:%M''] [''name'' \<mapsto> PyObject ''Decimal'']) =
     (Inl ValidationError,
      test_world [''format'' \<mapsto> PyStr ''%H:%M''] [''name'' \<mapsto> PyObject ''Decimal''])"
proof -
  have bad: "\<not> utf8_valid [CHR 0xFF]"
    by (simp add: byte_def lead_def)
  have "\<forall>b. utf8_valid b \<longrightarrow> [CHR 0xFF] \<noteq> b"
    using bad by blast
  then show ?thesis
    using validation_error_without_name [of
        "test_world [''format'' \<mapsto> PyStr ''%H:%M''] [''test'' \<mapsto> PyStr ''data'']" refusing]
      validation_error_without_name [of
        "test_world [''format'' \<mapsto> PyStr ''%H:%M''] [''name'' \<mapsto> PyInt 42]" refusing]
      validation_error_without_name [of
        "test_world [''format'' \<mapsto> PyStr ''%H:%M''] [''name'' \<mapsto> PyBytes [CHR 0xFF]]" refusing]
      validation_error_without_name [of
        "test_world [''format'' \<mapsto> PyStr ''%H:%M''] [''name'' \<mapsto> PyObject ''Decimal'']"
        refusing]
    by (simp add: test_world_fields)
qed

section \<open>Rendering failures\<close>

text \<open>
  A pattern is not refused for holding a directive that does not exist: on glibc the
  directive is copied and the handler greets.
\<close>

theorem unknown_directive_is_copied:
  "fst (get_current_time glibc_copies
          (test_world [''format'' \<mapsto> PyStr ''%Q''] [''name'' \<mapsto> PyStr ''Alice''])) =
     Inr [''result'' \<mapsto> PyStr ''Hi, Alice, the current time is %Q.'']"
proof -
  have "strftime glibc_copies mock_now (PyStr ''%Q'') = Inr ''%Q''"
    by (simp add: strftime_def directive_def)
  then show ?thesis
    by (simp add: handler_on_valid [OF validate_name] test_world_fields greeting_def)
qed

text \<open>
  Claim C4, amended. Let the payload's \<open>name\<close> be a string. When the configuration
  holds no string under \<open>format\<close> (no value at all, or a value of another type), the
  handler fails with the FormatError \<^verbatim>\<open>TypeError\<close>, after validation has passed
  and the clock and the configuration have been read. A string pattern is not checked
  by the handler: it fails, then with \<^verbatim>\<open>ValueError\<close> and at the same point,
  exactly when \<^verbatim>\<open>strftime\<close> refuses the pattern on the platform at hand, and
  otherwise the handler greets with what \<^verbatim>\<open>strftime\<close> made of it.
\<close>

theorem format_error_at_render_time:
  assumes "payload w ''name'' = Some (PyStr n)"
  shows "((\<forall>f. config w ''format'' \<noteq> Some (PyStr f)) \<longrightarrow>
            FormatError TypeError
            \<and> get_current_time P w =
                (Inl TypeError, w\<lparr>events := events w @ [ClockRead, ConfigRead ''format'']\<rparr>))
         \<and> (config w ''format'' = Some (PyStr f) \<longrightarrow>
              (if simple_render (clock w) f = None \<and> P (clock w) f = None
               then FormatError ValueError
                 \<and> get_current_time P w =
                     (Inl ValueError,
                      w\<lparr>events := events w @ [ClockRead, ConfigRead ''format'']\<rparr>)
               else \<exists>t. strftime P (clock w) (PyStr f) = Inr t
                 \<and> get_current_time P w =
                     (Inr [''result'' \<mapsto>
                        PyStr (''Hi, '' @ n @ '', the current time is '' @ t @ ''.'')],
                      w\<lparr>events := events w @ [ClockRead, ConfigRead ''format'']\<rparr>)))"
proof -
  have valid: "model_validate (payload w) = Inr \<lparr>name = n\<rparr>"
    using assms by (rule validate_name)
  have no_string: "strftime P (clock w)
      (case config w ''format'' of None \<Rightarrow> PyNone | Some v \<Rightarrow> v) = Inl TypeError"
    if "\<forall>f. config w ''format'' \<noteq> Some (PyStr f)"
    using that by (auto simp: strftime_def split: option.splits pyval.splits)
  have refused: "strftime P (clock w) (PyStr f) = Inl ValueError"
    if "simple_render (clock w) f = None" and "P (clock w) f = None"
    using that by (simp add: strftime_def)
  have rendered: "\<exists>t. strftime P (clock w) (PyStr f) = Inr t"
    if "\<not> (simple_render (clock w) f = None \<and> P (clock w) f = None)"
    using that by (auto simp: strftime_def split: option.splits)
  show ?thesis
    using no_string refused rendered
    by (auto simp: handler_on_valid [OF valid] FormatError_def greeting_def)
qed

theorem format_error_at_render_time_witness:
  "get_current_time glibc_copies (test_world Map.empty [''name'' \<mapsto> PyStr ''Alice'']) =
     (Inl TypeError,
      (test_world Map.empty [''name'' \<mapsto> PyStr ''Alice''])
        \<lparr>events := [ClockRead, ConfigRead ''format'']\<rparr>)
   \<and>
   get_current_time glibc_copies
     (test_world [''format'' \<mapsto> PyInt 24] [''name'' \<mapsto> PyStr ''Alice'']) =
     (Inl TypeError,
      (test_world [''format'' \<mapsto> PyInt 24] [''name'' \<mapsto> PyStr ''Alice''])
        \<lparr>events := [ClockRead, ConfigRead ''format'']\<rparr>)
   \<and>
   get_current_time glibc_copies
     (test_world [''format'' \<mapsto> PyStr ''%H:%M''] [''name'' \<mapsto> PyStr ''Alice'']) =
     (Inr [''result'' \<mapsto> PyStr ''Hi, Alice, the current time is 12:30.''],
      (test_world [''format'' \<mapsto> PyStr ''%H:%M''] [''name'' \<mapsto> PyStr ''Alice''])
        \<lparr>events := [ClockRead, ConfigRead ''format'']\<rparr>)"
  using format_error_at_render_time [of
      "test_world Map.empty [''name'' \<mapsto> PyStr ''Alice'']" "''Alice''" glibc_copies "''%H:%M''"]
    format_error_at_render_time [of
      "test_world [''format'' \<mapsto> PyInt 24] [''name'' \<mapsto> PyStr ''Alice'']" "''Alice''"
      glibc_copies "''%H:%M''"]
    format_error_at_render_time [of
      "test_world [''format'' \<mapsto> PyStr ''%H:%M''] [''name'' \<mapsto> PyStr ''Alice'']" "''Alice''"
      glibc_copies "''%H:%M''"]
  by (simp add: test_world_fields render_short strftime_fixed [OF render_short]
      del: simple_render.simps glibc_copies.simps)

section \<open>Order of the steps and effects\<close>

lemma handler_world:
  "snd (get_current_time P w) =
     (if isl (model_validate (payload w)) then w
      else w\<lparr>events := events w @ [ClockRead, ConfigRead ''format'']\<rparr>)"
  by (cases "model_validate (payload w)") (simp_all add: handler_on_invalid handler_on_valid)




text \<open>
  Claim C6. Validation comes first: when the payload fails validation the handler
  fails with ValidationError and has read neither the clock nor the configuration.
  When the payload passes, the handler reads the clock, then asks the configuration
  for \<open>format\<close>, and then renders the clock value with the value it was given; the
  result is the greeting or the error of the rendering.
\<close>

theorem order_of_steps:
  "(model_validate (payload w) = Inl e \<longrightarrow>
      get_current_time P w = (Inl ValidationError, w))
   \<and> (model_validate (payload w) = Inr u \<longrightarrow>
        (case now w of (t, w1) \<Rightarrow>
         case get_config ''format'' w1 of (time_format, w2) \<Rightarrow>
           events w1 = events w @ [ClockRead]
           \<and> events w2 = events w @ [ClockRead, ConfigRead ''format'']
           \<and> snd (get_current_time P w) = w2
           \<and> fst (get_current_time P w) =
               (case strftime P t time_format of
                  Inl x \<Rightarrow> Inl x
                | Inr s \<Rightarrow> Inr [''result'' \<mapsto> PyStr (greeting (name u) s)])))"
proof -
  have "model_validate (payload w) = Inl e \<Longrightarrow> get_current_time P w = (Inl ValidationError, w)"
    using validation_fails_only_with_ValidationError [of "payload w" e]
    by (simp add: handler_on_invalid)
  then show ?thesis
    by (auto simp: handler_on_valid now_def get_config_def)
qed

theorem order_of_steps_witness:
  "get_current_time refusing (test_world Map.empty [''test'' \<mapsto> PyStr ''data'']) =
     (Inl ValidationError, test_world Map.empty [''test'' \<mapsto> PyStr ''data''])
   \<and> events (snd (get_current_time refusing
        (test_world Map.empty [''name'' \<mapsto> PyStr ''Alice'']))) =
       [ClockRead, ConfigRead ''format'']
   \<and> fst (get_current_time refusing
        (test_world Map.empty [''name'' \<mapsto> PyStr ''Alice''])) = Inl TypeError"
proof -
  have invalid: "model_validate [''test'' \<mapsto> PyStr ''data''] = Inl ValidationError"
    by (simp add: model_validate_def)
  have valid: "model_validate [''name'' \<mapsto> PyStr ''Alice''] = Inr \<lparr>name = ''Alice''\<rparr>"
    by (simp add: validate_name)
  show ?thesis
    using order_of_steps [of "test_world Map.empty [''test'' \<mapsto> PyStr ''data'']"
        ValidationError refusing "\<lparr>name = ''Alice''\<rparr>"]
      order_of_steps [of "test_world Map.empty [''name'' \<mapsto> PyStr ''Alice'']"
        ValidationError refusing "\<lparr>name = ''Alice''\<rparr>"]
    by (simp add: test_world_fields invalid valid now_def get_config_def strftime_None)
qed

section \<open>The empty name\<close>

text \<open>
  Claim C7. For the payload whose only entry is the empty string under \<open>name\<close>, and a
  pattern that \<^verbatim>\<open>strftime\<close> renders as \<open>t\<close>, the handler succeeds and returns
  \<open>Hi, , the current time is t.\<close> under \<open>result\<close>.
\<close>

theorem empty_name_is_greeted:
  assumes "payload w = [''name'' \<mapsto> PyStr []]"
    and "config w ''format'' = Some (PyStr f)"
    and "strftime P (clock w) (PyStr f) = Inr t"
  shows "fst (get_current_time P w) =
           Inr [''result'' \<mapsto> PyStr (''Hi, , the current time is '' @ t @ ''.'')]"
proof -
  have "model_validate (payload w) = Inr \<lparr>name = []\<rparr>"
    using assms(1) by (simp add: validate_name)
  then show ?thesis
    using assms(2,3) by (simp add: handler_on_valid greeting_def)
qed

theorem empty_name_is_greeted_witness:
  "fst (get_current_time refusing
          (test_world [''format'' \<mapsto> PyStr ''%H:%M''] [''name'' \<mapsto> PyStr []])) =
     Inr [''result'' \<mapsto> PyStr ''Hi, , the current time is 12:30.'']"
  using empty_name_is_greeted [of
      "test_world [''format'' \<mapsto> PyStr ''%H:%M''] [''name'' \<mapsto> PyStr []]"
      "''%H:%M''" refusing "''12:30''"]
  by (simp add: test_world_fields strftime_fixed [OF render_short])

section \<open>Frame\<close>

text \<open>
  Claim C8. Whether it succeeds or fails, the handler leaves the payload dictionary,
  the configuration and the clock as they were; the only trace it leaves is that the
  clock and the configuration value \<open>format\<close> were read, or no trace at all.
\<close>

theorem handler_only_reads:
  "payload (snd (get_current_time P w)) = payload w
   \<and> config (snd (get_current_time P w)) = config w
   \<and> clock (snd (get_current_time P w)) = clock w
   \<and> (events (snd (get_current_time P w)) = events w
      \<or> events (snd (get_current_time P w)) = events w @ [ClockRead, ConfigRead ''format''])"
  by (simp add: handler_world)

theorem handler_only_reads_witness:
  "snd (get_current_time refusing
          (test_world [''format'' \<mapsto> PyStr ''%H:%M''] [''name'' \<mapsto> PyStr ''Alice''])) =
     (test_world [''format'' \<mapsto> PyStr ''%H:%M''] [''name'' \<mapsto> PyStr ''Alice''])
       \<lparr>events := [ClockRead, ConfigRead ''format'']\<rparr>
   \<and> snd (get_current_time refusing
          (test_world [''format'' \<mapsto> PyStr ''%H:%M''] [''test'' \<mapsto> PyStr ''data''])) =
     test_world [''format'' \<mapsto> PyStr ''%H:%M''] [''test'' \<mapsto> PyStr ''data'']"
proof -
  have invalid: "model_validate [''test'' \<mapsto> PyStr ''data''] = Inl ValidationError"
    by (simp add: model_validate_def)
  show ?thesis
    using handler_only_reads [of refusing
        "test_world [''format'' \<mapsto> PyStr ''%H:%M''] [''name'' \<mapsto> PyStr ''Alice'']"]
    by (simp add: handler_world test_world_fields validate_name invalid)
qed

section \<open>Extra keys of the payload\<close>

text \<open>
  Claim C9. Two payloads that hold the same string under \<open>name\<close> pass validation
  with the same decoded record and, for the same clock value and configuration, give
  the same result, whatever else they hold.
\<close>

theorem extra_keys_ignored:
  assumes "payload w ''name'' = Some (PyStr n)" and "payload w' ''name'' = Some (PyStr n)"
    and "clock w' = clock w" and "config w' = config w"
  shows "fst (get_current_time P w') = fst (get_current_time P w)
         \<and> model_validate (payload w') = Inr \<lparr>name = n\<rparr>
         \<and> model_validate (payload w) = Inr \<lparr>name = n\<rparr>"
  using assms by (simp add: validate_name handler_on_valid [OF validate_name])

theorem extra_keys_ignored_witness:
  "fst (get_current_time refusing
          (test_world [''format'' \<mapsto> PyStr ''%H:%M'']
             [''name'' \<mapsto> PyStr ''Alice'', ''test'' \<mapsto> PyStr ''data''])) =
   fst (get_current_time refusing
          (test_world [''format'' \<mapsto> PyStr ''%H:%M''] [''name'' \<mapsto> PyStr ''Alice'']))
   \<and> model_validate [''name'' \<mapsto> PyStr ''Alice'', ''test'' \<mapsto> PyStr ''data''] =
       Inr \<lparr>name = ''Alice''\<rparr>"
  using extra_keys_ignored [of
      "test_world [''format'' \<mapsto> PyStr ''%H:%M''] [''name'' \<mapsto> PyStr ''Alice'']" "''Alice''"
      "test_world [''format'' \<mapsto> PyStr ''%H:%M'']
         [''name'' \<mapsto> PyStr ''Alice'', ''test'' \<mapsto> PyStr ''data'']" refusing]
  by (simp add: test_world_fields)

section \<open>The bootstrap wrapper\<close>

text \<open>
  An exception that does not derive from \<^verbatim>\<open>Exception\<close> passes the handler of
  \<^verbatim>\<open>main\<close>: nothing is printed for it and the wrapper ends by raising it, after
  awaiting \<^verbatim>\<open>close\<close>. The script does not catch it either. And an exception
  of the constructor, of either kind, leaves \<^verbatim>\<open>main\<close> before the
  \<^verbatim>\<open>try\<close>: nothing is printed and \<^verbatim>\<open>close\<close> is not awaited.
\<close>

theorem system_exit_is_not_caught:
  "main (Inr \<lparr>start = Raises SystemExit, close = Returns\<rparr>) =
     ([Print ''Starting agent function service...'', AwaitStart, AwaitClose],
      Raises SystemExit)
   \<and> script (Inr \<lparr>start = Raises SystemExit, close = Returns\<rparr>) =
     ([Print ''Starting agent function service...'', AwaitStart, AwaitClose],
      Raises SystemExit)
   \<and> main (Inl (Exception ''no configuration'')) = ([], Raises (Exception ''no configuration''))"
  by (simp add: main_def script_def)

text \<open>
  Claim C10, amended. When the constructor raises, \<^verbatim>\<open>main\<close> ends with that
  exception at once, having printed and awaited nothing. Once the object is built,
  \<^verbatim>\<open>close\<close> is awaited once, as the last step of the wrapper, and
  \<^verbatim>\<open>start\<close> is awaited once, in all cases: the service is not started again.
  When \<^verbatim>\<open>start\<close> returns, or raises an exception deriving from
  \<^verbatim>\<open>Exception\<close>, which is caught and printed, the wrapper ends as
  \<^verbatim>\<open>close\<close> ends. When \<^verbatim>\<open>start\<close> raises an exception that does not
  derive from \<^verbatim>\<open>Exception\<close>, nothing is printed for it and the wrapper ends by
  raising it after the shutdown, or by raising what \<^verbatim>\<open>close\<close> raised.
\<close>

theorem wrapper_shutdown:
  "main (Inl x) = ([], Raises x)
   \<and> last (fst (main (Inr f))) = AwaitClose
   \<and> count_list (fst (main (Inr f))) AwaitClose = 1
   \<and> count_list (fst (main (Inr f))) AwaitStart = 1
   \<and> (start f = Returns \<longrightarrow>
        main (Inr f) =
          ([Print ''Starting agent function service...'', AwaitStart, AwaitClose], close f))
   \<and> (start f = Raises (Exception m) \<longrightarrow>
        main (Inr f) =
          ([Print ''Starting agent function service...'', AwaitStart,
            Print (CHR 0x0A # ''An error occurred: '' @ m), AwaitClose],
           close f))
   \<and> (start f = Raises b \<and> (\<forall>t. b \<noteq> Exception t) \<longrightarrow>
        main (Inr f) =
          ([Print ''Starting agent function service...'', AwaitStart, AwaitClose],
           case close f of Returns \<Rightarrow> Raises b | Raises c \<Rightarrow> Raises c))"
  by (auto simp: main_def split: outcome.splits exn.splits)

theorem wrapper_shutdown_witness:
  "main (Inr \<lparr>start = Raises (Exception ''boom''), close = Returns\<rparr>) =
     ([Print ''Starting agent function service...'', AwaitStart,
       Print (CHR 0x0A # ''An error occurred: boom''), AwaitClose],
      Returns)
   \<and> main (Inr \<lparr>start = Raises KeyboardInterrupt, close = Returns\<rparr>) =
     ([Print ''Starting agent function service...'', AwaitStart, AwaitClose],
      Raises KeyboardInterrupt)
   \<and> main (Inr \<lparr>start = Returns, close = Raises (Exception ''late'')\<rparr>) =
     ([Print ''Starting agent function service...'', AwaitStart, AwaitClose],
      Raises (Exception ''late''))"
  using wrapper_shutdown [of "Exception ''boom''"
      "\<lparr>start = Raises (Exception ''boom''), close = Returns\<rparr>" "''boom''" KeyboardInterrupt]
    wrapper_shutdown [of KeyboardInterrupt
      "\<lparr>start = Raises KeyboardInterrupt, close = Returns\<rparr>" "''boom''" KeyboardInterrupt]
    wrapper_shutdown [of KeyboardInterrupt
      "\<lparr>start = Returns, close = Raises (Exception ''late'')\<rparr>" "''boom''" KeyboardInterrupt]
  by simp

end
